theory Spec2Isabelle
  imports Main
begin

section \<open>Looking up user accounts by phone number (src/config/search.js)\<close>

text \<open>
  The module has three asynchronous functions, \<open>findUserByPhoneNumber\<close>,
  \<open>findUsersByPhoneNumbers\<close> and \<open>getUserDetailsByPhoneNumber\<close>, and a command-line
  block. All of them delegate to one operation of the identity service's administrative
  SDK, \<open>admin.auth().getUserByPhoneNumber\<close>. The SDK is not part of the module, so it is a
  parameter of every definition below: a function from the phone number and the state of
  the remote service to the settled promise (rejected with an error, or fulfilled with a
  user record) and the state of the service afterwards. Every SDK call is taken to settle.
\<close>

subsection \<open>JavaScript values\<close>

text \<open>
  The values the module handles: primitives (symbols among them, with their description)
  and plain objects. Strings are byte lists (UTF-8); numbers are integers, with \<open>NaN\<close>
  apart.
\<close>

datatype jsval =
    JUndefined
  | JNull
  | JBoolean bool
  | JNumber int
  | JNaN
  | JString string
  | JSymbol string
  | JObject "(string \<times> jsval) list"

text \<open>The test \<open>if (v)\<close> and the operand test of \<open>!v\<close> and \<open>v || d\<close>.\<close>

fun truthy :: "jsval \<Rightarrow> bool" where
  "truthy JUndefined = False"
| "truthy JNull = False"
| "truthy (JBoolean b) = b"
| "truthy (JNumber n) = (n \<noteq> 0)"
| "truthy JNaN = False"
| "truthy (JString s) = (s \<noteq> [])"
| "truthy (JSymbol d) = True"
| "truthy (JObject fs) = True"

fun js_typeof :: "jsval \<Rightarrow> string" where
  "js_typeof JUndefined = ''undefined''"
| "js_typeof JNull = ''object''"
| "js_typeof (JBoolean b) = ''boolean''"
| "js_typeof (JNumber n) = ''number''"
| "js_typeof JNaN = ''number''"
| "js_typeof (JString s) = ''string''"
| "js_typeof (JSymbol d) = ''symbol''"
| "js_typeof (JObject fs) = ''object''"

fun decimal :: "nat \<Rightarrow> string" where
  "decimal n =
     (if n < 10 then [char_of (48 + n)]
      else decimal (n div 10) @ [char_of (48 + n mod 10)])"

text \<open>The characters of a string value.\<close>

fun string_value :: "jsval \<Rightarrow> string" where
  "string_value (JString s) = s"
| "string_value v = []"

definition startsWith :: "string \<Rightarrow> string \<Rightarrow> bool" where
  "startsWith s p = (take (length p) s = p)"

text \<open>\<open>a || b\<close>\<close>

definition js_or :: "jsval \<Rightarrow> jsval \<Rightarrow> jsval" where
  "js_or a b = (if truthy a then a else b)"

subsection \<open>Errors and user records\<close>

text \<open>
  A thrown value is an error object; the module reads its \<open>code\<close> and its \<open>message\<close>.
  \<open>new Error(msg)\<close> has the message and no \<open>code\<close> property.
\<close>

record js_error =
  code :: jsval
  message :: jsval

definition new_Error :: "string \<Rightarrow> js_error" where
  "new_Error msg = \<lparr>code = JUndefined, message = JString msg\<rparr>"

text \<open>
  A \<open>TypeError\<close> of the runtime is built the same way; the module reads nothing of an
  error but these two properties.
\<close>

definition new_TypeError :: "string \<Rightarrow> js_error" where
  "new_TypeError msg = \<lparr>code = JUndefined, message = JString msg\<rparr>"

text \<open>
  The conversion a template literal \<open>`${v}`\<close> applies to \<open>v\<close>. A symbol has no string
  conversion: the literal throws a \<open>TypeError\<close>.
\<close>

fun js_ToString :: "jsval \<Rightarrow> js_error + string" where
  "js_ToString JUndefined = Inr ''undefined''"
| "js_ToString JNull = Inr ''null''"
| "js_ToString (JBoolean b) = Inr (if b then ''true'' else ''false'')"
| "js_ToString (JNumber n) = Inr (if n < 0 then ''-'' @ decimal (nat (- n)) else decimal (nat n))"
| "js_ToString JNaN = Inr ''NaN''"
| "js_ToString (JString s) = Inr s"
| "js_ToString (JSymbol d) = Inl (new_TypeError ''Cannot convert a Symbol value to a string'')"
| "js_ToString (JObject fs) = Inr ''[object Object]''"

text \<open>
  The SDK's user record, with the fields the module reads. The SDK's objects may carry
  further fields (the extension of each record scheme); the module reads none of them.
\<close>

record user_metadata =
  creationTime :: jsval
  lastSignInTime :: jsval
  lastRefreshTime :: jsval

record user_info =
  uid :: jsval
  displayName :: jsval
  email :: jsval
  phoneNumber :: jsval
  photoURL :: jsval
  providerId :: jsval

record ('m, 'p) user_record =
  uid :: jsval
  email :: jsval
  phoneNumber :: jsval
  displayName :: jsval
  photoURL :: jsval
  emailVerified :: jsval
  disabled :: jsval
  metadata :: "'m user_metadata_scheme"
  customClaims :: jsval
  providerData :: "'p user_info_scheme list"

text \<open>
  What the SDK returns is any extension of the record; the plain object that
  \<open>getUserDetailsByPhoneNumber\<close> builds has exactly the fields listed.
\<close>

type_synonym ('m, 'p, 'z) UserRecord = "('m, 'p, 'z) user_record_scheme"

type_synonym user_details = "(unit, unit) user_record"

record ('m, 'p, 'z) batch_result =
  found :: "('m, 'p, 'z) UserRecord list"
  notFound :: "jsval list"

subsection \<open>Effects\<close>

text \<open>
  What a run does besides returning: it sends a lookup to the SDK and writes to the
  console. The events are kept in the order they happen, beside the state of the remote
  service. One more kind of event is bookkeeping: each call of \<open>findUserByPhoneNumber\<close>
  is recorded with its argument, so that the calls of a run can be counted.
\<close>

datatype event =
    Call_findUserByPhoneNumber jsval
  | Sdk_getUserByPhoneNumber string
  | Console_log "jsval list"
  | Console_error "jsval list"

record 'w world =
  trace :: "event list"
  remote :: 'w

type_synonym ('w, 'm, 'p, 'z) auth_sdk =
  "string \<Rightarrow> 'w \<Rightarrow> (js_error + ('m, 'p, 'z) UserRecord) \<times> 'w"

definition emit :: "event \<Rightarrow> 'w world \<Rightarrow> 'w world" where
  "emit e w = w\<lparr>trace := trace w @ [e]\<rparr>"

definition console_log :: "jsval list \<Rightarrow> 'w world \<Rightarrow> 'w world" where
  "console_log args = emit (Console_log args)"

definition console_error :: "jsval list \<Rightarrow> 'w world \<Rightarrow> 'w world" where
  "console_error args = emit (Console_error args)"

text \<open>\<open>await admin.auth().getUserByPhoneNumber(phoneNumber)\<close>\<close>

definition await_getUserByPhoneNumber ::
  "('w, 'm, 'p, 'z) auth_sdk \<Rightarrow> string \<Rightarrow> 'w world
    \<Rightarrow> (js_error + ('m, 'p, 'z) UserRecord) \<times> 'w world" where
  "await_getUserByPhoneNumber getUserByPhoneNumber s w =
     (let w1 = emit (Sdk_getUserByPhoneNumber s) w;
          settled = getUserByPhoneNumber s (remote w1)
      in (fst settled, w1\<lparr>remote := snd settled\<rparr>))"

subsection \<open>findUserByPhoneNumber\<close>

text \<open>
  The \<open>catch\<close> block (lines 40 to 48): the one documented error code gives \<open>null\<close>, any
  other error is logged and thrown again. The template literal of line 42 is evaluated
  before anything is logged.
\<close>

definition findUserByPhoneNumber_catch ::
  "jsval \<Rightarrow> js_error \<Rightarrow> 'w world
    \<Rightarrow> (js_error + ('m, 'p, 'z) UserRecord option) \<times> 'w world" where
  "findUserByPhoneNumber_catch phoneNum error w =
     (if code error = JString ''auth/user-not-found''
      then (case js_ToString phoneNum of
              Inl thrown \<Rightarrow> (Inl thrown, w)
            | Inr s \<Rightarrow>
                (Inr None, console_log [JString (''No user found with phone number: '' @ s)] w))
      else (Inl error,
            console_error [JString ''Error searching for user by phone number:'', message error] w))"

text \<open>The object literal logged on success (lines 28 to 37).\<close>

definition logged_fields :: "('m, 'p, 'z) UserRecord \<Rightarrow> jsval" where
  "logged_fields userRecord =
     JObject
       [(''uid'', uid userRecord),
        (''email'', email userRecord),
        (''phoneNumber'', phoneNumber userRecord),
        (''displayName'', displayName userRecord),
        (''emailVerified'', emailVerified userRecord),
        (''disabled'', disabled userRecord),
        (''creationTime'', creationTime (metadata userRecord)),
        (''lastSignInTime'', lastSignInTime (metadata userRecord))]"

text \<open>
  The body (lines 13 to 49). The result is the settled promise: \<open>Inl\<close> a thrown error,
  \<open>Inr None\<close> for \<open>null\<close>, \<open>Inr (Some userRecord)\<close> for the record. Both validation errors
  are thrown inside the \<open>try\<close>, so they go through the \<open>catch\<close> block as well. Past the
  first check the argument is a string; \<open>string_value\<close> gives its characters.
\<close>

definition findUserByPhoneNumber ::
  "('w, 'm, 'p, 'z) auth_sdk \<Rightarrow> jsval \<Rightarrow> 'w world
    \<Rightarrow> (js_error + ('m, 'p, 'z) UserRecord option) \<times> 'w world" where
  "findUserByPhoneNumber getUserByPhoneNumber phoneNum w0 =
     (let w = emit (Call_findUserByPhoneNumber phoneNum) w0 in
      if \<not> truthy phoneNum \<or> js_typeof phoneNum \<noteq> ''string''
      then findUserByPhoneNumber_catch phoneNum
             (new_Error ''Phone number must be a non-empty string'') w
      else if \<not> startsWith (string_value phoneNum) ''+''
      then findUserByPhoneNumber_catch phoneNum
             (new_Error ''Phone number must be in E.164 format (e.g., +1234567890)'') w
      else
        (case await_getUserByPhoneNumber getUserByPhoneNumber (string_value phoneNum) w of
           (Inl error, w') \<Rightarrow> findUserByPhoneNumber_catch phoneNum error w'
         | (Inr userRecord, w') \<Rightarrow>
             (Inr (Some userRecord),
              console_log [JString ''User found:'', logged_fields userRecord] w')))"

subsection \<open>findUsersByPhoneNumbers\<close>

text \<open>
  The loop (lines 60 to 72), with the two arrays as accumulators; \<open>push\<close> appends. The
  elements of the argument are any values. The loop's own \<open>catch\<close> block (lines 68 to 71)
  evaluates its template literal first: when the element has no string conversion the
  literal throws, nothing encloses it, and the batch is rejected with that error. So the
  result is the settled promise here as well.
\<close>

fun findUsersByPhoneNumbers_loop ::
  "('w, 'm, 'p, 'z) auth_sdk \<Rightarrow> jsval list
    \<Rightarrow> ('m, 'p, 'z) UserRecord list \<Rightarrow> jsval list \<Rightarrow> 'w world
    \<Rightarrow> (js_error + ('m, 'p, 'z) batch_result) \<times> 'w world" where
  "findUsersByPhoneNumbers_loop getUserByPhoneNumber [] found_acc notFound_acc w =
     (Inr \<lparr>found = found_acc, notFound = notFound_acc\<rparr>, w)"
| "findUsersByPhoneNumbers_loop getUserByPhoneNumber (phoneNum # rest) found_acc notFound_acc w =
     (case findUserByPhoneNumber getUserByPhoneNumber phoneNum w of
        (Inr (Some user), w') \<Rightarrow>
          findUsersByPhoneNumbers_loop getUserByPhoneNumber rest (found_acc @ [user]) notFound_acc w'
      | (Inr None, w') \<Rightarrow>
          findUsersByPhoneNumbers_loop getUserByPhoneNumber rest found_acc (notFound_acc @ [phoneNum]) w'
      | (Inl error, w') \<Rightarrow>
          (case js_ToString phoneNum of
             Inl thrown \<Rightarrow> (Inl thrown, w')
           | Inr s \<Rightarrow>
               findUsersByPhoneNumbers_loop getUserByPhoneNumber rest found_acc
                 (notFound_acc @ [phoneNum])
                 (console_error [JString (''Error searching for '' @ s @ '':''), message error] w')))"

definition findUsersByPhoneNumbers ::
  "('w, 'm, 'p, 'z) auth_sdk \<Rightarrow> jsval list \<Rightarrow> 'w world
    \<Rightarrow> (js_error + ('m, 'p, 'z) batch_result) \<times> 'w world" where
  "findUsersByPhoneNumbers getUserByPhoneNumber phoneNumbers w =
     findUsersByPhoneNumbers_loop getUserByPhoneNumber phoneNumbers [] [] w"

subsection \<open>getUserDetailsByPhoneNumber\<close>

text \<open>The object literal of lines 91 to 113.\<close>

definition user_details_of :: "('m, 'p, 'z) UserRecord \<Rightarrow> user_details" where
  "user_details_of userRecord =
     \<lparr>uid = uid userRecord,
      email = email userRecord,
      phoneNumber = phoneNumber userRecord,
      displayName = displayName userRecord,
      photoURL = photoURL userRecord,
      emailVerified = emailVerified userRecord,
      disabled = disabled userRecord,
      metadata =
        \<lparr>creationTime = creationTime (metadata userRecord),
         lastSignInTime = lastSignInTime (metadata userRecord),
         lastRefreshTime = lastRefreshTime (metadata userRecord)\<rparr>,
      customClaims = js_or (customClaims userRecord) (JObject []),
      providerData =
        map (\<lambda>provider.
               \<lparr>user_info.uid = user_info.uid provider,
                displayName = user_info.displayName provider,
                email = user_info.email provider,
                phoneNumber = user_info.phoneNumber provider,
                photoURL = user_info.photoURL provider,
                providerId = providerId provider\<rparr>)
            (providerData userRecord)\<rparr>"

definition getUserDetailsByPhoneNumber ::
  "('w, 'm, 'p, 'z) auth_sdk \<Rightarrow> jsval \<Rightarrow> 'w world
    \<Rightarrow> (js_error + user_details option) \<times> 'w world" where
  "getUserDetailsByPhoneNumber getUserByPhoneNumber phoneNum w =
     (case findUserByPhoneNumber getUserByPhoneNumber phoneNum w of
        (Inr None, w') \<Rightarrow> (Inr None, w')
      | (Inr (Some userRecord), w') \<Rightarrow> (Inr (Some (user_details_of userRecord)), w')
      | (Inl error, w') \<Rightarrow>
          (Inl error, console_error [JString ''Error getting user details:'', message error] w'))"

subsection \<open>The command line\<close>

text \<open>
  The block under \<open>require.main === module\<close> (lines 128 to 158). \<open>process.argv[2]\<close> is
  \<open>undefined\<close> when the array is shorter. The process ends by \<open>process.exit(1)\<close> or by
  running to completion.
\<close>

datatype ending = Process_exit nat | Completed

definition usage_text :: string where
  "usage_text =
     ''\<newline>Usage: node search.js <phone_number>\<newline>\<newline>Examples:\<newline>  node search.js +1234567890\<newline>  node search.js +84123456789\<newline>\<newline>The phone number must be in E.164 format (starting with +).\<newline>    ''"

definition check_mark :: string where
  "check_mark = [CHR 0xE2, CHR 0x9C, CHR 0x85]"

definition cross_mark :: string where
  "cross_mark = [CHR 0xE2, CHR 0x9D, CHR 0x8C]"

definition argv_at :: "string list \<Rightarrow> nat \<Rightarrow> jsval" where
  "argv_at argv i = (if i < length argv then JString (argv ! i) else JUndefined)"

definition cli_main ::
  "('w, 'm, 'p, 'z) auth_sdk \<Rightarrow> string list \<Rightarrow> 'w world \<Rightarrow> ending \<times> 'w world" where
  "cli_main getUserByPhoneNumber argv w =
     (let phoneNum = argv_at argv 2 in
      if \<not> truthy phoneNum
      then (Process_exit 1, console_log [JString usage_text] w)
      else
        (case findUserByPhoneNumber getUserByPhoneNumber phoneNum w of
           (Inr (Some user), w') \<Rightarrow>
             (Completed,
              console_log [JString (''\<newline>'' @ check_mark @ '' User found successfully!'')] w')
         | (Inr None, w') \<Rightarrow>
             (Process_exit 1,
              console_log
                [JString (''\<newline>'' @ cross_mark @ '' No user found with this phone number.'')] w')
         | (Inl error, w') \<Rightarrow>
             (Process_exit 1,
              console_error [JString (''\<newline>'' @ cross_mark @ '' Error:''), message error] w')))"

subsection \<open>Reading a run\<close>

text \<open>The arguments of the calls of \<open>findUserByPhoneNumber\<close> in a trace, in order.\<close>

fun find_calls :: "event list \<Rightarrow> jsval list" where
  "find_calls [] = []"
| "find_calls (Call_findUserByPhoneNumber p # t) = p # find_calls t"
| "find_calls (e # t) = find_calls t"

text \<open>The lookups sent to the SDK in a trace, in order.\<close>

fun sdk_requests :: "event list \<Rightarrow> string list" where
  "sdk_requests [] = []"
| "sdk_requests (Sdk_getUserByPhoneNumber s # t) = s # sdk_requests t"
| "sdk_requests (e # t) = sdk_requests t"

text \<open>
  The single lookups of a list of values, one after the other from the state \<open>r\<close> of the
  remote service: each value with the way its \<open>findUserByPhoneNumber\<close> settles. The
  service's state after one lookup is the state the next lookup starts from.
\<close>

fun sequential_lookups ::
  "('w, 'm, 'p, 'z) auth_sdk \<Rightarrow> jsval list \<Rightarrow> 'w
    \<Rightarrow> (jsval \<times> (js_error + ('m, 'p, 'z) UserRecord option)) list" where
  "sequential_lookups getUserByPhoneNumber [] r = []"
| "sequential_lookups getUserByPhoneNumber (p # ps) r =
     (let settled = findUserByPhoneNumber getUserByPhoneNumber p \<lparr>trace = [], remote = r\<rparr>
      in (p, fst settled) # sequential_lookups getUserByPhoneNumber ps (remote (snd settled)))"

text \<open>
  One pass of the loop body over a phone number \<open>p\<close>: one call of
  \<open>findUserByPhoneNumber\<close>, and one more console line when the call raises an error.
\<close>

definition one_attempt :: "('w, 'm, 'p, 'z) auth_sdk \<Rightarrow> string \<Rightarrow> 'w world \<Rightarrow> 'w world" where
  "one_attempt getUserByPhoneNumber p w =
     (let settled = findUserByPhoneNumber getUserByPhoneNumber (JString p) w
      in case fst settled of
           Inl error \<Rightarrow>
             console_error [JString (''Error searching for '' @ p @ '':''), message error] (snd settled)
         | Inr user \<Rightarrow> snd settled)"

text \<open>
  An SDK that counts how often it is applied: the lookup of \<open>getUserByPhoneNumber\<close>, with
  a counter beside the state of the remote service.
\<close>

definition counted ::
  "('w, 'm, 'p, 'z) auth_sdk \<Rightarrow> ('w \<times> nat, 'm, 'p, 'z) auth_sdk" where
  "counted getUserByPhoneNumber s rn =
     (fst (getUserByPhoneNumber s (fst rn)), (snd (getUserByPhoneNumber s (fst rn)), Suc (snd rn)))"

text \<open>The values a template literal can convert to a string.\<close>

fun stringable :: "jsval \<Rightarrow> bool" where
  "stringable (JSymbol d) = False"
| "stringable v = True"

text \<open>The inputs that are a non-empty string.\<close>

fun nonempty_string :: "jsval \<Rightarrow> bool" where
  "nonempty_string (JString s) = (s \<noteq> [])"
| "nonempty_string v = False"

text \<open>A lookup yields a user when it is fulfilled with a record.\<close>

fun yields_user :: "js_error + 'u option \<Rightarrow> bool" where
  "yields_user (Inr (Some u)) = True"
| "yields_user r = False"


text \<open>The records of the lookups that yield a user, in order.\<close>

fun found_users :: "('k \<times> (js_error + 'u option)) list \<Rightarrow> 'u list" where
  "found_users [] = []"
| "found_users ((p, Inr (Some u)) # os) = u # found_users os"
| "found_users (other # os) = found_users os"

subsection \<open>A sample identity service\<close>

text \<open>
  A service with two accounts, for concrete runs. It rejects a number that is not a plus
  sign followed by digits with \<open>auth/invalid-phone-number\<close>, a number without an account
  with \<open>auth/user-not-found\<close>, and counts the lookups it has served.
\<close>

definition alice :: "(unit, unit, string) UserRecord" where
  "alice =
     \<lparr>uid = JString ''uid-alice'',
      email = JString ''alice@example.com'',
      phoneNumber = JString ''+1234567890'',
      displayName = JString ''Alice'',
      photoURL = JUndefined,
      emailVerified = JBoolean True,
      disabled = JBoolean False,
      metadata =
        \<lparr>creationTime = JString ''Mon, 01 Jan 2024 00:00:00 GMT'',
         lastSignInTime = JString ''Tue, 02 Jan 2024 00:00:00 GMT'',
         lastRefreshTime = JNull\<rparr>,
      customClaims = JObject [(''admin'', JBoolean True)],
      providerData =
        [\<lparr>user_info.uid = JString ''+1234567890'',
          displayName = JUndefined,
          email = JUndefined,
          phoneNumber = JString ''+1234567890'',
          photoURL = JUndefined,
          providerId = JString ''phone''\<rparr>],
      \<dots> = ''tenant-a''\<rparr>"

definition bob :: "(unit, unit, string) UserRecord" where
  "bob =
     \<lparr>uid = JString ''uid-bob'',
      email = JUndefined,
      phoneNumber = JString ''+84123456789'',
      displayName = JUndefined,
      photoURL = JUndefined,
      emailVerified = JBoolean False,
      disabled = JBoolean False,
      metadata =
        \<lparr>creationTime = JString ''Wed, 03 Jan 2024 00:00:00 GMT'',
         lastSignInTime = JNull,
         lastRefreshTime = JNull\<rparr>,
      customClaims = JUndefined,
      providerData = [],
      \<dots> = ''tenant-b''\<rparr>"

record sample_service =
  accounts :: "(string \<times> (unit, unit, string) UserRecord) list"
  served :: nat

definition invalid_phone_number :: js_error where
  "invalid_phone_number =
     \<lparr>code = JString ''auth/invalid-phone-number'',
      message = JString ''The phone number must be a non-empty E.164 standard compliant identifier string.''\<rparr>"

definition user_not_found :: js_error where
  "user_not_found =
     \<lparr>code = JString ''auth/user-not-found'',
      message = JString ''There is no user record corresponding to the provided identifier.''\<rparr>"

definition sample_sdk :: "(sample_service, unit, unit, string) auth_sdk" where
  "sample_sdk s r =
     (if tl s = [] \<or> \<not> list_all (\<lambda>c. c \<in> set ''0123456789'') (tl s) then Inl invalid_phone_number
      else (case map_of (accounts r) s of
              None \<Rightarrow> Inl user_not_found
            | Some u \<Rightarrow> Inr u),
      r\<lparr>served := Suc (served r)\<rparr>)"

definition sample_world :: "sample_service world" where
  "sample_world =
     \<lparr>trace = [],
      remote = \<lparr>accounts = [(''+1234567890'', alice), (''+84123456789'', bob)], served = 0\<rparr>\<rparr>"

section \<open>Properties\<close>

subsection \<open>Basic facts\<close>

lemma startsWith_plus: "startsWith s ''+'' \<longleftrightarrow> (\<exists>t. s = CHR ''+'' # t)"
  by (cases s) (auto simp: startsWith_def)

lemma not_string_cases:
  "(\<not> truthy p \<or> js_typeof p \<noteq> ''string'') \<longleftrightarrow> \<not> nonempty_string p"
  by (cases p) auto

lemma nonempty_string_iff: "nonempty_string p \<longleftrightarrow> (\<exists>s. p = JString s \<and> s \<noteq> [])"
  by (cases p) auto

lemma nonempty_string_ToString: "nonempty_string p \<Longrightarrow> js_ToString p = Inr (string_value p)"
  by (cases p) simp_all

lemma stringable_iff: "stringable p \<longleftrightarrow> (\<exists>s. js_ToString p = Inr s)"
  by (cases p) simp_all



lemma startsWith_nonempty: "startsWith s ''+'' \<Longrightarrow> s \<noteq> []"
  by (auto simp: startsWith_def)

lemma new_Error_sel [simp]: "code (new_Error m) = JUndefined" "message (new_Error m) = JString m"
  by (simp_all add: new_Error_def)

lemma emit_sel [simp]: "trace (emit e w) = trace w @ [e]" "remote (emit e w) = remote w"
  by (simp_all add: emit_def)

lemma console_sel [simp]:
  "trace (console_log a w) = trace w @ [Console_log a]" "remote (console_log a w) = remote w"
  "trace (console_error a w) = trace w @ [Console_error a]" "remote (console_error a w) = remote w"
  by (simp_all add: console_log_def console_error_def)

lemma await_sel [simp]:
  "fst (await_getUserByPhoneNumber sdk s w) = fst (sdk s (remote w))"
  "trace (snd (await_getUserByPhoneNumber sdk s w)) = trace w @ [Sdk_getUserByPhoneNumber s]"
  "remote (snd (await_getUserByPhoneNumber sdk s w)) = snd (sdk s (remote w))"
  by (simp_all add: await_getUserByPhoneNumber_def Let_def)

lemma catch_sel [simp]:
  "fst (findUserByPhoneNumber_catch p e w) =
     (if code e = JString ''auth/user-not-found''
      then (case js_ToString p of Inl thrown \<Rightarrow> Inl thrown | Inr s \<Rightarrow> Inr None)
      else Inl e)"
  "remote (snd (findUserByPhoneNumber_catch p e w)) = remote w"
  "trace (snd (findUserByPhoneNumber_catch p e w)) = trace w @
     (if code e = JString ''auth/user-not-found''
      then (case js_ToString p of
              Inl thrown \<Rightarrow> []
            | Inr s \<Rightarrow> [Console_log [JString (''No user found with phone number: '' @ s)]])
      else [Console_error [JString ''Error searching for user by phone number:'', message e]])"
  by (simp_all add: findUserByPhoneNumber_catch_def split: sum.splits)

lemma find_calls_append [simp]: "find_calls (a @ b) = find_calls a @ find_calls b"
  by (induction a rule: find_calls.induct) simp_all

lemma sdk_requests_append [simp]: "sdk_requests (a @ b) = sdk_requests a @ sdk_requests b"
  by (induction a rule: sdk_requests.induct) simp_all

text \<open>The three ways through \<open>findUserByPhoneNumber\<close>.\<close>

lemma find_fst:
  "fst (findUserByPhoneNumber sdk p w) =
     (if \<not> nonempty_string p
      then Inl (new_Error ''Phone number must be a non-empty string'')
      else if \<not> startsWith (string_value p) ''+''
      then Inl (new_Error ''Phone number must be in E.164 format (e.g., +1234567890)'')
      else (case fst (sdk (string_value p) (remote w)) of
              Inl e \<Rightarrow> if code e = JString ''auth/user-not-found'' then Inr None else Inl e
            | Inr u \<Rightarrow> Inr (Some u)))"
  unfolding findUserByPhoneNumber_def Let_def not_string_cases
  by (simp add: split_beta nonempty_string_ToString split: sum.splits)

lemma find_remote:
  "remote (snd (findUserByPhoneNumber sdk p w)) =
     (if nonempty_string p \<and> startsWith (string_value p) ''+''
      then snd (sdk (string_value p) (remote w))
      else remote w)"
  unfolding findUserByPhoneNumber_def Let_def not_string_cases
  by (simp add: split_beta split: sum.splits)

lemma find_trace:
  "trace (snd (findUserByPhoneNumber sdk p w)) =
     trace w @ Call_findUserByPhoneNumber p #
     (if \<not> nonempty_string p
      then [Console_error [JString ''Error searching for user by phone number:'',
              JString ''Phone number must be a non-empty string'']]
      else if \<not> startsWith (string_value p) ''+''
      then [Console_error [JString ''Error searching for user by phone number:'',
              JString ''Phone number must be in E.164 format (e.g., +1234567890)'']]
      else [Sdk_getUserByPhoneNumber (string_value p),
            (case fst (sdk (string_value p) (remote w)) of
               Inl e \<Rightarrow>
                 if code e = JString ''auth/user-not-found''
                 then Console_log [JString (''No user found with phone number: '' @ string_value p)]
                 else Console_error [JString ''Error searching for user by phone number:'', message e]
             | Inr u \<Rightarrow> Console_log [JString ''User found:'', logged_fields u])])"
  unfolding findUserByPhoneNumber_def Let_def not_string_cases
  by (simp add: split_beta nonempty_string_ToString split: sum.splits)

lemma find_fst_frame:
  "fst (findUserByPhoneNumber sdk p w) =
   fst (findUserByPhoneNumber sdk p \<lparr>trace = [], remote = remote w\<rparr>)"
  by (simp add: find_fst)

lemma find_remote_frame:
  "remote (snd (findUserByPhoneNumber sdk p w)) =
   remote (snd (findUserByPhoneNumber sdk p \<lparr>trace = [], remote = remote w\<rparr>))"
  by (simp add: find_remote)

lemma find_calls_find:
  "find_calls (trace (snd (findUserByPhoneNumber sdk p w))) = find_calls (trace w) @ [p]"
  by (simp add: find_trace split: sum.splits)

lemma sdk_requests_find:
  "sdk_requests (trace (snd (findUserByPhoneNumber sdk p w))) =
     sdk_requests (trace w) @
       (if nonempty_string p \<and> startsWith (string_value p) ''+'' then [string_value p] else [])"
  by (simp add: find_trace split: sum.splits)

lemma sample_lookups:
  "fst (sample_sdk ''+1234567890'' (remote sample_world)) = Inr alice"
  "fst (sample_sdk ''+84123456789'' (remote sample_world)) = Inr bob"
  "fst (sample_sdk ''+15550100'' (remote sample_world)) = Inl user_not_found"
  "fst (sample_sdk ''+'' (remote sample_world)) = Inl invalid_phone_number"
  by (simp_all add: sample_sdk_def sample_world_def)

text \<open>The batch loop, by induction on the values still to look up.\<close>

lemma sequential_lookups_step:
  assumes "findUserByPhoneNumber sdk p w = (r, w')"
  shows "sequential_lookups sdk (p # ps) (remote w) = (p, r) # sequential_lookups sdk ps (remote w')"
proof -
  have "fst (findUserByPhoneNumber sdk p \<lparr>trace = [], remote = remote w\<rparr>) = r"
    using find_fst_frame [of sdk p w] assms by simp
  moreover have "remote (snd (findUserByPhoneNumber sdk p \<lparr>trace = [], remote = remote w\<rparr>))
      = remote w'"
    using find_remote_frame [of sdk p w] assms by simp
  ultimately show ?thesis by (simp add: Let_def)
qed

lemma map_fst_sequential_lookups: "map fst (sequential_lookups sdk ps r) = ps"
  by (induction ps arbitrary: r) (simp_all add: Let_def)

lemma list_all_stringable_strings: "list_all stringable (map JString ps)"
  by (induction ps) simp_all

lemma loop_fst:
  assumes "list_all stringable ps"
  shows "fst (findUsersByPhoneNumbers_loop sdk ps f n w) =
     Inr \<lparr>found = f @ found_users (sequential_lookups sdk ps (remote w)),
          notFound = n @ map fst (filter (\<lambda>x. \<not> yields_user (snd x))
                                     (sequential_lookups sdk ps (remote w)))\<rparr>"
  using assms
proof (induction ps arbitrary: f n w)
  case Nil
  show ?case by simp
next
  case (Cons p ps)
  obtain r w' where X: "findUserByPhoneNumber sdk p w = (r, w')"
    by (cases "findUserByPhoneNumber sdk p w")
  note S = sequential_lookups_step [OF X]
  from Cons.prems have sp: "stringable p" and rest: "list_all stringable ps" by simp_all
  from sp obtain s where s: "js_ToString p = Inr s" by (auto simp: stringable_iff)
  show ?case
  proof (cases r)
    case (Inl e)
    then show ?thesis using X S s Cons.IH [OF rest] by simp
  next
    case (Inr u)
    then show ?thesis using X S Cons.IH [OF rest] by (cases u) simp_all
  qed
qed


lemma loop_find_calls:
  assumes "list_all stringable ps"
  shows "find_calls (trace (snd (findUsersByPhoneNumbers_loop sdk ps f n w))) =
     find_calls (trace w) @ ps"
  using assms
proof (induction ps arbitrary: f n w)
  case Nil
  show ?case by simp
next
  case (Cons p ps)
  obtain r w' where X: "findUserByPhoneNumber sdk p w = (r, w')"
    by (cases "findUserByPhoneNumber sdk p w")
  have c: "find_calls (trace w') = find_calls (trace w) @ [p]"
    using find_calls_find [of sdk p w] X by simp
  from Cons.prems have sp: "stringable p" and rest: "list_all stringable ps" by simp_all
  from sp obtain s where s: "js_ToString p = Inr s" by (auto simp: stringable_iff)
  show ?case
  proof (cases r)
    case (Inl e)
    then show ?thesis using X c s Cons.IH [OF rest] by simp
  next
    case (Inr u)
    then show ?thesis using X c Cons.IH [OF rest] by (cases u) simp_all
  qed
qed

lemma loop_sdk_requests:
  assumes "list_all stringable ps"
  shows "sdk_requests (trace (snd (findUsersByPhoneNumbers_loop sdk ps f n w))) =
     sdk_requests (trace w) @
     map string_value (filter (\<lambda>p. nonempty_string p \<and> startsWith (string_value p) ''+'') ps)"
  using assms
proof (induction ps arbitrary: f n w)
  case Nil
  show ?case by simp
next
  case (Cons p ps)
  obtain r w' where X: "findUserByPhoneNumber sdk p w = (r, w')"
    by (cases "findUserByPhoneNumber sdk p w")
  have c: "sdk_requests (trace w') = sdk_requests (trace w) @
      (if nonempty_string p \<and> startsWith (string_value p) ''+'' then [string_value p] else [])"
    using sdk_requests_find [of sdk p w] X by simp
  from Cons.prems have sp: "stringable p" and rest: "list_all stringable ps" by simp_all
  from sp obtain s where s: "js_ToString p = Inr s" by (auto simp: stringable_iff)
  show ?case
  proof (cases r)
    case (Inl e)
    then show ?thesis using X c s Cons.IH [OF rest] by simp
  next
    case (Inr u)
    then show ?thesis using X c Cons.IH [OF rest] by (cases u) simp_all
  qed
qed

lemma filter_passing_strings:
  "filter (\<lambda>p. nonempty_string p \<and> startsWith (string_value p) ''+'') (map JString ps) =
   map JString (filter (\<lambda>p. startsWith p ''+'') ps)"
  by (induction ps) (auto dest: startsWith_nonempty)

lemma found_users_filter:
  "map (\<lambda>u. Inr (Some u)) (found_users os) = map snd (filter (\<lambda>x. yields_user (snd x)) os)"
  by (induction os rule: found_users.induct) simp_all

lemma length_found_users:
  "length (found_users os) + length (filter (\<lambda>x. \<not> yields_user (snd x)) os) = length os"
  by (induction os rule: found_users.induct) simp_all

lemma find_trace_grows:
  "set (trace w) \<subseteq> set (trace (snd (findUserByPhoneNumber sdk p w)))"
  by (auto simp: find_trace)

lemma loop_trace_grows:
  "set (trace w) \<subseteq> set (trace (snd (findUsersByPhoneNumbers_loop sdk ps f n w)))"
proof (induction ps arbitrary: f n w)
  case Nil
  show ?case by simp
next
  case (Cons p ps)
  obtain r w' where X: "findUserByPhoneNumber sdk p w = (r, w')"
    by (cases "findUserByPhoneNumber sdk p w")
  have c: "set (trace w) \<subseteq> set (trace w')"
    using find_trace_grows [of w sdk p] X by simp
  show ?case
  proof (cases r)
    case (Inl e)
    show ?thesis
    proof (cases "js_ToString p")
      case (Inl thrown)
      then show ?thesis using X c \<open>r = Inl e\<close> by simp
    next
      case (Inr s)
      let ?w = "console_error [JString (''Error searching for '' @ s @ '':''), message e] w'"
      have "set (trace w') \<subseteq> set (trace ?w)" by auto
      also have "\<dots> \<subseteq> set (trace (snd (findUsersByPhoneNumbers_loop sdk ps f (n @ [p]) ?w)))"
        by (rule Cons.IH)
      finally show ?thesis using X c Inr \<open>r = Inl e\<close> by simp
    qed
  next
    case (Inr u)
    show ?thesis
    proof (cases u)
      case None
      then show ?thesis using X c Inr Cons.IH [of w' f "n @ [p]"] by simp
    next
      case (Some a)
      then show ?thesis using X c Inr Cons.IH [of w' "f @ [a]" n] by simp
    qed
  qed
qed

lemma loop_error_logged:
  assumes "list_all stringable ps"
    and "(q, Inl e) \<in> set (sequential_lookups sdk ps (remote w))"
    and "js_ToString q = Inr t"
  shows "Console_error [JString (''Error searching for '' @ t @ '':''), message e]
           \<in> set (trace (snd (findUsersByPhoneNumbers_loop sdk ps f n w)))"
  using assms(1,2)
proof (induction ps arbitrary: f n w)
  case Nil
  then show ?case by simp
next
  case (Cons p ps)
  obtain r w' where X: "findUserByPhoneNumber sdk p w = (r, w')"
    by (cases "findUserByPhoneNumber sdk p w")
  note S = sequential_lookups_step [OF X]
  from Cons.prems(1) have sp: "stringable p" and rest: "list_all stringable ps" by simp_all
  from sp obtain s where s: "js_ToString p = Inr s" by (auto simp: stringable_iff)
  from Cons.prems(2) S have disj:
    "(q, Inl e) = (p, r) \<or> (q, Inl e) \<in> set (sequential_lookups sdk ps (remote w'))" by simp
  show ?case
  proof (cases r)
    case (Inl e')
    let ?w = "console_error [JString (''Error searching for '' @ s @ '':''), message e'] w'"
    have step: "findUsersByPhoneNumbers_loop sdk (p # ps) f n w =
        findUsersByPhoneNumbers_loop sdk ps f (n @ [p]) ?w"
      using X Inl s by simp
    from disj show ?thesis
    proof
      assume "(q, Inl e) = (p, r)"
      then have eq: "q = p" "e' = e" using Inl by simp_all
      with s assms(3) have st: "s = t" by simp
      have "set (trace ?w) \<subseteq> set (trace (snd (findUsersByPhoneNumbers_loop sdk ps f (n @ [p]) ?w)))"
        by (rule loop_trace_grows)
      then show ?thesis using step eq st by auto
    next
      assume "(q, Inl e) \<in> set (sequential_lookups sdk ps (remote w'))"
      then have "(q, Inl e) \<in> set (sequential_lookups sdk ps (remote ?w))" by simp
      from Cons.IH [OF rest this] show ?thesis using step by simp
    qed
  next
    case (Inr u)
    with disj have in_rest: "(q, Inl e) \<in> set (sequential_lookups sdk ps (remote w'))" by simp
    show ?thesis using X Inr Cons.IH [OF rest in_rest] by (cases u) simp_all
  qed
qed

text \<open>The batch over strings, as a fold of single attempts.\<close>

lemma loop_world:
  "snd (findUsersByPhoneNumbers_loop sdk (map JString ps) f n w) = fold (one_attempt sdk) ps w"
proof (induction ps arbitrary: f n w)
  case Nil
  show ?case by simp
next
  case (Cons p ps)
  obtain r w' where X: "findUserByPhoneNumber sdk (JString p) w = (r, w')"
    by (cases "findUserByPhoneNumber sdk (JString p) w")
  show ?case
  proof (cases r)
    case (Inl e)
    then show ?thesis using X Cons.IH by (simp add: one_attempt_def)
  next
    case (Inr u)
    then show ?thesis using X Cons.IH by (cases u) (simp_all add: one_attempt_def)
  qed
qed

lemma one_attempt_remote:
  "remote (one_attempt sdk p w) =
     (if startsWith p ''+'' then snd (sdk p (remote w)) else remote w)"
proof -
  have "remote (one_attempt sdk p w) = remote (snd (findUserByPhoneNumber sdk (JString p) w))"
    by (simp add: one_attempt_def Let_def split: sum.splits)
  then show ?thesis using startsWith_nonempty [of p] by (auto simp: find_remote)
qed

lemma fold_one_attempt_remote:
  "remote (fold (one_attempt sdk) ps w) =
     fold (\<lambda>p r. snd (sdk p r)) (filter (\<lambda>p. startsWith p ''+'') ps) (remote w)"
  by (induction ps arbitrary: w) (simp_all add: one_attempt_remote)

lemma fold_counted:
  "fold (\<lambda>p rn. snd (counted sdk p rn)) qs (r, n) =
     (fold (\<lambda>p r. snd (sdk p r)) qs r, n + length qs)"
  by (induction qs arbitrary: r n) (simp_all add: counted_def)

text \<open>The details function and the command line, in terms of the single lookup.\<close>

lemma details_fst:
  "fst (getUserDetailsByPhoneNumber sdk p w) =
     (case fst (findUserByPhoneNumber sdk p w) of
        Inl e \<Rightarrow> Inl e
      | Inr None \<Rightarrow> Inr None
      | Inr (Some u) \<Rightarrow> Inr (Some (user_details_of u)))"
  by (cases "findUserByPhoneNumber sdk p w")
     (simp add: getUserDetailsByPhoneNumber_def split: sum.splits option.splits)

lemma details_remote:
  "remote (snd (getUserDetailsByPhoneNumber sdk p w)) = remote (snd (findUserByPhoneNumber sdk p w))"
  by (cases "findUserByPhoneNumber sdk p w")
     (simp add: getUserDetailsByPhoneNumber_def split: sum.splits option.splits)

lemma argv_at_2:
  "argv_at argv 2 = (if 2 < length argv then JString (argv ! 2) else JUndefined)"
  by (simp add: argv_at_def)

lemma cli_main_usage:
  "\<not> (2 < length argv \<and> argv ! 2 \<noteq> []) \<Longrightarrow>
     cli_main sdk argv w = (Process_exit 1, console_log [JString usage_text] w)"
  by (auto simp: cli_main_def Let_def argv_at_2)

lemma cli_main_lookup:
  "2 < length argv \<Longrightarrow> argv ! 2 \<noteq> [] \<Longrightarrow>
     cli_main sdk argv w =
       (case findUserByPhoneNumber sdk (JString (argv ! 2)) w of
           (Inr (Some user), w') \<Rightarrow>
             (Completed,
              console_log [JString (''\<newline>'' @ check_mark @ '' User found successfully!'')] w')
         | (Inr None, w') \<Rightarrow>
             (Process_exit 1,
              console_log
                [JString (''\<newline>'' @ cross_mark @ '' No user found with this phone number.'')] w')
         | (Inl error, w') \<Rightarrow>
             (Process_exit 1,
              console_error [JString (''\<newline>'' @ cross_mark @ '' Error:''), message error] w'))"
  by (simp add: cli_main_def Let_def argv_at_2)

lemma find_view:
  assumes "\<forall>s r. view (snd (sdk s r)) = view r"
  shows "view (remote (snd (findUserByPhoneNumber sdk p w))) = view (remote w)"
  using assms by (simp add: find_remote)


lemma loop_view:
  assumes "\<forall>s r. view (snd (sdk s r)) = view r"
  shows "view (remote (snd (findUsersByPhoneNumbers_loop sdk ps f n w))) = view (remote w)"
proof (induction ps arbitrary: f n w)
  case Nil
  show ?case by simp
next
  case (Cons p ps)
  obtain r w' where X: "findUserByPhoneNumber sdk p w = (r, w')"
    by (cases "findUserByPhoneNumber sdk p w")
  have c: "view (remote w') = view (remote w)"
    using find_view [OF assms, of p w] X by simp
  show ?case
  proof (cases r)
    case (Inl e)
    then show ?thesis using X c Cons.IH by (cases "js_ToString p") simp_all
  next
    case (Inr u)
    then show ?thesis using X c Cons.IH by (cases u) simp_all
  qed
qed

lemma sample_sequential_lookups:
  "sequential_lookups sample_sdk
     [JString ''+1234567890'', JString ''12345'', JString ''+15550100'', JString ''+'',
      JString ''+84123456789'']
     (remote sample_world) =
   [(JString ''+1234567890'', Inr (Some alice)),
    (JString ''12345'', Inl (new_Error ''Phone number must be in E.164 format (e.g., +1234567890)'')),
    (JString ''+15550100'', Inr None),
    (JString ''+'', Inl invalid_phone_number),
    (JString ''+84123456789'', Inr (Some bob))]"
  by (simp add: Let_def find_fst find_remote startsWith_def sample_sdk_def sample_world_def
      user_not_found_def invalid_phone_number_def)

lemma batch_world:
  "snd (findUsersByPhoneNumbers sdk (map JString ps) w) = fold (one_attempt sdk) ps w"
  by (simp add: findUsersByPhoneNumbers_def loop_world)

lemma batch_remote:
  "remote (snd (findUsersByPhoneNumbers sdk (map JString ps) w)) =
     fold (\<lambda>p r. snd (sdk p r)) (filter (\<lambda>p. startsWith p ''+'') ps) (remote w)"
  by (simp add: batch_world fold_one_attempt_remote)

subsection \<open>Validation comes before the remote lookup\<close>

text \<open>
  C3. \<open>findUserByPhoneNumber\<close> validates its input before it calls the SDK. An input that
  is not a non-empty string is rejected with the first validation error, a non-empty
  string that does not start with a plus sign with the second; in both cases no lookup is
  sent and the remote service is left as it was. Every string that starts with a plus
  sign, whatever follows the sign, passes: exactly one lookup is sent, with that string,
  and the result is the SDK's (no validation error).
\<close>

theorem findUserByPhoneNumber_validates_first:
  "((\<forall>s. p = JString s \<longrightarrow> s = []) \<longrightarrow>
      fst (findUserByPhoneNumber sdk p w) = Inl (new_Error ''Phone number must be a non-empty string'')
      \<and> sdk_requests (trace (snd (findUserByPhoneNumber sdk p w))) = sdk_requests (trace w)
      \<and> remote (snd (findUserByPhoneNumber sdk p w)) = remote w)
   \<and> (\<forall>s. p = JString s \<and> s \<noteq> [] \<and> (\<forall>t. s \<noteq> CHR ''+'' # t) \<longrightarrow>
      fst (findUserByPhoneNumber sdk p w) =
        Inl (new_Error ''Phone number must be in E.164 format (e.g., +1234567890)'')
      \<and> sdk_requests (trace (snd (findUserByPhoneNumber sdk p w))) = sdk_requests (trace w)
      \<and> remote (snd (findUserByPhoneNumber sdk p w)) = remote w)
   \<and> (\<forall>t. p = JString (CHR ''+'' # t) \<longrightarrow>
      sdk_requests (trace (snd (findUserByPhoneNumber sdk p w))) =
        sdk_requests (trace w) @ [CHR ''+'' # t]
      \<and> remote (snd (findUserByPhoneNumber sdk p w)) = snd (sdk (CHR ''+'' # t) (remote w))
      \<and> fst (findUserByPhoneNumber sdk p w) =
          (case fst (sdk (CHR ''+'' # t) (remote w)) of
             Inl e \<Rightarrow> if code e = JString ''auth/user-not-found'' then Inr None else Inl e
           | Inr u \<Rightarrow> Inr (Some u)))"
proof (intro conjI allI impI)
  assume "\<forall>s. p = JString s \<longrightarrow> s = []"
  then have n: "\<not> nonempty_string p" by (simp add: nonempty_string_iff)
  show "fst (findUserByPhoneNumber sdk p w) = Inl (new_Error ''Phone number must be a non-empty string'')"
    using n by (simp add: find_fst)
  show "sdk_requests (trace (snd (findUserByPhoneNumber sdk p w))) = sdk_requests (trace w)"
    using n by (simp add: sdk_requests_find)
  show "remote (snd (findUserByPhoneNumber sdk p w)) = remote w"
    using n by (simp add: find_remote)
next
  fix s assume a: "p = JString s \<and> s \<noteq> [] \<and> (\<forall>t. s \<noteq> CHR ''+'' # t)"
  then have n: "nonempty_string p" and m: "\<not> startsWith (string_value p) ''+''"
    by (simp_all add: startsWith_plus)
  show "fst (findUserByPhoneNumber sdk p w) =
        Inl (new_Error ''Phone number must be in E.164 format (e.g., +1234567890)'')"
    using n m by (simp add: find_fst)
  show "sdk_requests (trace (snd (findUserByPhoneNumber sdk p w))) = sdk_requests (trace w)"
    using n m by (simp add: sdk_requests_find)
  show "remote (snd (findUserByPhoneNumber sdk p w)) = remote w"
    using n m by (simp add: find_remote)
next
  fix t assume a: "p = JString (CHR ''+'' # t)"
  then have n: "nonempty_string p" and m: "startsWith (string_value p) ''+''"
    and j: "string_value p = CHR ''+'' # t"
    by (simp_all add: startsWith_plus)
  show "sdk_requests (trace (snd (findUserByPhoneNumber sdk p w))) =
        sdk_requests (trace w) @ [CHR ''+'' # t]"
    using n m j by (simp add: sdk_requests_find)
  show "remote (snd (findUserByPhoneNumber sdk p w)) = snd (sdk (CHR ''+'' # t) (remote w))"
    using n m j by (simp add: find_remote)
  show "fst (findUserByPhoneNumber sdk p w) =
          (case fst (sdk (CHR ''+'' # t) (remote w)) of
             Inl e \<Rightarrow> if code e = JString ''auth/user-not-found'' then Inr None else Inl e
           | Inr u \<Rightarrow> Inr (Some u))"
    using n m j by (simp add: find_fst)
qed

theorem findUserByPhoneNumber_validates_first_witness:
  "fst (findUserByPhoneNumber sample_sdk (JNumber 5) sample_world) =
     Inl (new_Error ''Phone number must be a non-empty string'')
   \<and> fst (findUserByPhoneNumber sample_sdk (JString '''') sample_world) =
     Inl (new_Error ''Phone number must be a non-empty string'')
   \<and> fst (findUserByPhoneNumber sample_sdk (JString ''1234567890'') sample_world) =
     Inl (new_Error ''Phone number must be in E.164 format (e.g., +1234567890)'')
   \<and> sdk_requests (trace (snd (findUserByPhoneNumber sample_sdk (JString ''1234567890'') sample_world))) = []
   \<and> fst (findUserByPhoneNumber sample_sdk (JString ''+1234567890'') sample_world) = Inr (Some alice)
   \<and> sdk_requests (trace (snd (findUserByPhoneNumber sample_sdk (JString ''+1234567890'') sample_world)))
       = [''+1234567890'']"
  using findUserByPhoneNumber_validates_first [where p = "JNumber 5" and sdk = sample_sdk and w = sample_world]
    findUserByPhoneNumber_validates_first [where p = "JString ''''" and sdk = sample_sdk and w = sample_world]
    findUserByPhoneNumber_validates_first [where p = "JString ''1234567890''" and sdk = sample_sdk and w = sample_world]
    findUserByPhoneNumber_validates_first [where p = "JString ''+1234567890''" and sdk = sample_sdk and w = sample_world]
  by (simp add: sample_lookups) (simp add: sample_world_def)


subsection \<open>Only the documented "not found" error becomes null\<close>

text \<open>
  C1. \<open>findUserByPhoneNumber\<close> returns \<open>null\<close> exactly when the lookup is made (the input
  is a string starting with a plus sign) and the SDK rejects it with an error whose code is
  \<open>auth/user-not-found\<close>. An SDK error with any other code, or with none, is thrown to the
  caller as it is; so is any error without that code that reaches the \<open>catch\<close> block.
\<close>

theorem findUserByPhoneNumber_null_iff_not_found:
  "(fst (findUserByPhoneNumber sdk p w) = Inr None \<longleftrightarrow>
      (\<exists>t e. p = JString (CHR ''+'' # t) \<and> fst (sdk (CHR ''+'' # t) (remote w)) = Inl e
         \<and> code e = JString ''auth/user-not-found''))
   \<and> (\<forall>t e. p = JString (CHR ''+'' # t) \<and> fst (sdk (CHR ''+'' # t) (remote w)) = Inl e
         \<and> code e \<noteq> JString ''auth/user-not-found''
       \<longrightarrow> fst (findUserByPhoneNumber sdk p w) = Inl e)
   \<and> (\<forall>e w'. code e \<noteq> JString ''auth/user-not-found''
       \<longrightarrow> fst (findUserByPhoneNumber_catch p e w') = Inl e)"
proof (intro conjI allI impI)
  show "fst (findUserByPhoneNumber sdk p w) = Inr None \<longleftrightarrow>
      (\<exists>t e. p = JString (CHR ''+'' # t) \<and> fst (sdk (CHR ''+'' # t) (remote w)) = Inl e
         \<and> code e = JString ''auth/user-not-found'')"
  proof
    assume null: "fst (findUserByPhoneNumber sdk p w) = Inr None"
    then have n: "nonempty_string p" and m: "startsWith (string_value p) ''+''"
      by (auto simp: find_fst split: if_splits)
    from n obtain s where p: "p = JString s" by (auto simp: nonempty_string_iff)
    with m obtain t where s: "s = CHR ''+'' # t" by (auto simp: startsWith_plus)
    from null n m p s obtain e where "fst (sdk (CHR ''+'' # t) (remote w)) = Inl e"
      "code e = JString ''auth/user-not-found''"
      by (auto simp: find_fst split: sum.splits if_splits)
    with p s show "\<exists>t e. p = JString (CHR ''+'' # t) \<and> fst (sdk (CHR ''+'' # t) (remote w)) = Inl e
         \<and> code e = JString ''auth/user-not-found''" by blast
  next
    assume "\<exists>t e. p = JString (CHR ''+'' # t) \<and> fst (sdk (CHR ''+'' # t) (remote w)) = Inl e
         \<and> code e = JString ''auth/user-not-found''"
    then obtain t e where "p = JString (CHR ''+'' # t)" "fst (sdk (CHR ''+'' # t) (remote w)) = Inl e"
      "code e = JString ''auth/user-not-found''" by blast
    then show "fst (findUserByPhoneNumber sdk p w) = Inr None"
      by (simp add: find_fst startsWith_plus)
  qed
next
  fix t e
  assume "p = JString (CHR ''+'' # t) \<and> fst (sdk (CHR ''+'' # t) (remote w)) = Inl e
         \<and> code e \<noteq> JString ''auth/user-not-found''"
  then show "fst (findUserByPhoneNumber sdk p w) = Inl e"
    by (simp add: find_fst startsWith_plus)
next
  fix e :: js_error and w' :: "'e world"
  assume "code e \<noteq> JString ''auth/user-not-found''"
  then show "fst (findUserByPhoneNumber_catch p e w') = Inl e" by simp
qed

theorem findUserByPhoneNumber_null_iff_not_found_witness:
  "fst (findUserByPhoneNumber sample_sdk (JString ''+15550100'') sample_world) = Inr None
   \<and> fst (sample_sdk ''+15550100'' (remote sample_world)) = Inl user_not_found
   \<and> fst (findUserByPhoneNumber sample_sdk (JString ''+'') sample_world) = Inl invalid_phone_number
   \<and> fst (sample_sdk ''+'' (remote sample_world)) = Inl invalid_phone_number"
proof -
  have c1: "code user_not_found = JString ''auth/user-not-found''"
    by (simp add: user_not_found_def)
  have c2: "code invalid_phone_number \<noteq> JString ''auth/user-not-found''"
    by (simp add: invalid_phone_number_def)
  note T1 = findUserByPhoneNumber_null_iff_not_found
    [where p = "JString ''+15550100''" and sdk = sample_sdk and w = sample_world]
  note T2 = findUserByPhoneNumber_null_iff_not_found
    [where p = "JString ''+''" and sdk = sample_sdk and w = sample_world]
  have "fst (findUserByPhoneNumber sample_sdk (JString ''+15550100'') sample_world) = Inr None"
    using T1 c1 sample_lookups(3) by blast
  moreover have "fst (findUserByPhoneNumber sample_sdk (JString ''+'') sample_world) = Inl invalid_phone_number"
    using T2 c2 sample_lookups(4) by blast
  ultimately show ?thesis using sample_lookups by simp
qed

subsection \<open>The batch lookup partitions its input\<close>

text \<open>
  C2. On a list of phone numbers (strings) \<open>findUsersByPhoneNumbers\<close> looks the numbers
  up one at a time in input order (the calls of \<open>findUserByPhoneNumber\<close> it adds to the
  trace are the input list) and returns \<open>{found, notFound}\<close>, a partition of the input
  by the way each lookup settles: \<open>found\<close> has the records of the lookups that yield a
  user, \<open>notFound\<close> has every other number, both in input order, so the two lengths add
  up to the length of the input.
\<close>

theorem findUsersByPhoneNumbers_partitions:
  "\<exists>r. fst (findUsersByPhoneNumbers sdk (map JString ps) w) = Inr r
     \<and> map fst (sequential_lookups sdk (map JString ps) (remote w)) = map JString ps
     \<and> map (\<lambda>u. Inr (Some u)) (found r) =
         map snd (filter (\<lambda>x. yields_user (snd x))
                    (sequential_lookups sdk (map JString ps) (remote w)))
     \<and> notFound r =
         map fst (filter (\<lambda>x. \<not> yields_user (snd x))
                    (sequential_lookups sdk (map JString ps) (remote w)))
     \<and> length (found r) + length (notFound r) = length ps
     \<and> find_calls (trace (snd (findUsersByPhoneNumbers sdk (map JString ps) w))) =
         find_calls (trace w) @ map JString ps"
proof -
  let ?qs = "map JString ps"
  let ?os = "sequential_lookups sdk ?qs (remote w)"
  note ok = list_all_stringable_strings [of ps]
  define r where "r = \<lparr>found = found_users ?os,
      notFound = map fst (filter (\<lambda>x. \<not> yields_user (snd x)) ?os)\<rparr>"
  have r: "fst (findUsersByPhoneNumbers_loop sdk ?qs [] [] w) = Inr r"
    using loop_fst [OF ok, of sdk "[]" "[]" w] by (simp add: r_def)
  have f: "found r = found_users ?os"
    and n: "notFound r = map fst (filter (\<lambda>x. \<not> yields_user (snd x)) ?os)"
    by (simp_all add: r_def)
  have len: "length ?os = length ps"
    using map_fst_sequential_lookups [of sdk ?qs "remote w"] by (metis length_map)
  have "length (found r) + length (notFound r) = length ps"
    using length_found_users [of ?os] f n len by simp
  moreover have "find_calls (trace (snd (findUsersByPhoneNumbers sdk ?qs w))) =
         find_calls (trace w) @ ?qs"
    by (simp add: findUsersByPhoneNumbers_def loop_find_calls [OF ok])
  moreover have "fst (findUsersByPhoneNumbers sdk ?qs w) = Inr r"
    using r by (simp add: findUsersByPhoneNumbers_def)
  ultimately show ?thesis
    using f n found_users_filter [of ?os] map_fst_sequential_lookups [of sdk ?qs "remote w"]
    by simp
qed

theorem findUsersByPhoneNumbers_partitions_witness:
  "fst (findUsersByPhoneNumbers sample_sdk
          (map JString [''+1234567890'', ''12345'', ''+15550100'', ''+'', ''+84123456789''])
          sample_world) =
     Inr \<lparr>found = [alice, bob],
          notFound = [JString ''12345'', JString ''+15550100'', JString ''+'']\<rparr>"
proof -
  have m: "map JString [''+1234567890'', ''12345'', ''+15550100'', ''+'', ''+84123456789''] =
      [JString ''+1234567890'', JString ''12345'', JString ''+15550100'', JString ''+'',
       JString ''+84123456789'']" by simp
  obtain r where r: "fst (findUsersByPhoneNumbers sample_sdk
          (map JString [''+1234567890'', ''12345'', ''+15550100'', ''+'', ''+84123456789''])
          sample_world) = Inr r"
    and f: "map (\<lambda>u. Inr (Some u)) (found r) =
         map snd (filter (\<lambda>x. yields_user (snd x)) (sequential_lookups sample_sdk
          (map JString [''+1234567890'', ''12345'', ''+15550100'', ''+'', ''+84123456789''])
          (remote sample_world)))"
    and n: "notFound r =
         map fst (filter (\<lambda>x. \<not> yields_user (snd x)) (sequential_lookups sample_sdk
          (map JString [''+1234567890'', ''12345'', ''+15550100'', ''+'', ''+84123456789''])
          (remote sample_world)))"
    using findUsersByPhoneNumbers_partitions [of sample_sdk
          "[''+1234567890'', ''12345'', ''+15550100'', ''+'', ''+84123456789'']" sample_world]
    by blast
  have "map (\<lambda>u. Inr (Some u) :: js_error + _) (found r) = map (\<lambda>u. Inr (Some u)) [alice, bob]"
    using f unfolding m sample_sequential_lookups by simp
  then have "found r = [alice, bob]"
    by (simp add: inj_on_def map_eq_conv [symmetric] del: list.map)
  moreover have "notFound r = [JString ''12345'', JString ''+15550100'', JString ''+'']"
    using n unfolding m sample_sequential_lookups by simp
  ultimately show ?thesis using r by simp
qed

subsection \<open>One lookup for each number\<close>

text \<open>
  C8. \<open>findUsersByPhoneNumbers\<close> returns for every list of phone numbers, and makes
  exactly one attempt for each number, in input order and without a retry: the state it
  leaves (the console, the requests sent, the remote service) is that of one call of
  \<open>findUserByPhoneNumber\<close> for each number, one after the other, and the calls are the
  input list, so their number is the length of the list. Of these attempts, those whose
  number passes validation apply the SDK, once each: the remote service ends in the state
  these lookups leave, and an SDK that counts its applications counts as many as there
  are numbers that start with a plus sign, the length of the list when all of them do.
\<close>

theorem findUsersByPhoneNumbers_one_lookup_each:
  "(\<exists>r. fst (findUsersByPhoneNumbers sdk (map JString ps) w) = Inr r)
   \<and> snd (findUsersByPhoneNumbers sdk (map JString ps) w) = fold (one_attempt sdk) ps w
   \<and> find_calls (trace (snd (findUsersByPhoneNumbers sdk (map JString ps) w))) =
       find_calls (trace w) @ map JString ps
   \<and> length (find_calls (trace (snd (findUsersByPhoneNumbers sdk (map JString ps) w)))) =
       length (find_calls (trace w)) + length ps
   \<and> sdk_requests (trace (snd (findUsersByPhoneNumbers sdk (map JString ps) w))) =
       sdk_requests (trace w) @ filter (\<lambda>p. startsWith p ''+'') ps
   \<and> remote (snd (findUsersByPhoneNumbers sdk (map JString ps) w)) =
       fold (\<lambda>p r. snd (sdk p r)) (filter (\<lambda>p. startsWith p ''+'') ps) (remote w)
   \<and> snd (remote (snd (findUsersByPhoneNumbers (counted sdk) (map JString ps)
                          \<lparr>trace = t, remote = (r0, k)\<rparr>))) =
       k + length (filter (\<lambda>p. startsWith p ''+'') ps)
   \<and> (list_all (\<lambda>p. startsWith p ''+'') ps \<longrightarrow>
        snd (remote (snd (findUsersByPhoneNumbers (counted sdk) (map JString ps)
                          \<lparr>trace = t, remote = (r0, k)\<rparr>))) = k + length ps)"
proof -
  note ok = list_all_stringable_strings [of ps]
  have cnt: "snd (remote (snd (findUsersByPhoneNumbers (counted sdk) (map JString ps)
                          \<lparr>trace = t, remote = (r0, k)\<rparr>))) =
       k + length (filter (\<lambda>p. startsWith p ''+'') ps)"
    by (simp add: batch_remote fold_counted)
  have all: "filter (\<lambda>p. startsWith p ''+'') ps = ps" if "list_all (\<lambda>p. startsWith p ''+'') ps"
    using that by (simp add: list_all_iff)
  have ret: "\<exists>r. fst (findUsersByPhoneNumbers sdk (map JString ps) w) = Inr r"
    by (simp add: findUsersByPhoneNumbers_def loop_fst [OF ok])
  have calls: "find_calls (trace (snd (findUsersByPhoneNumbers sdk (map JString ps) w))) =
       find_calls (trace w) @ map JString ps"
    by (simp add: findUsersByPhoneNumbers_def loop_find_calls [OF ok])
  have reqs: "sdk_requests (trace (snd (findUsersByPhoneNumbers sdk (map JString ps) w))) =
       sdk_requests (trace w) @ filter (\<lambda>p. startsWith p ''+'') ps"
    by (simp add: findUsersByPhoneNumbers_def loop_sdk_requests [OF ok] filter_passing_strings
        comp_def)
  show ?thesis
    using ret batch_world [of sdk ps w] calls reqs batch_remote [of sdk ps w] cnt all by simp
qed

theorem findUsersByPhoneNumbers_one_lookup_each_witness:
  "find_calls (trace (snd (findUsersByPhoneNumbers sample_sdk
       (map JString [''+1234567890'', ''12345'', ''+15550100'']) sample_world))) =
     [JString ''+1234567890'', JString ''12345'', JString ''+15550100'']
   \<and> sdk_requests (trace (snd (findUsersByPhoneNumbers sample_sdk
       (map JString [''+1234567890'', ''12345'', ''+15550100'']) sample_world))) =
     [''+1234567890'', ''+15550100'']
   \<and> served (remote (snd (findUsersByPhoneNumbers sample_sdk
       (map JString [''+1234567890'', ''12345'', ''+15550100'']) sample_world))) = 2
   \<and> snd (remote (snd (findUsersByPhoneNumbers (counted sample_sdk)
       (map JString [''+1234567890'', ''+15550100''])
       \<lparr>trace = [], remote = (remote sample_world, 0)\<rparr>))) = 2"
proof -
  note T = findUsersByPhoneNumbers_one_lookup_each
    [where sdk = sample_sdk and ps = "[''+1234567890'', ''12345'', ''+15550100'']"
       and w = sample_world]
  note U = findUsersByPhoneNumbers_one_lookup_each
    [where sdk = sample_sdk and ps = "[''+1234567890'', ''+15550100'']"
       and t = "[]" and ?r0.0 = "remote sample_world" and k = 0]
  have calls: "find_calls (trace (snd (findUsersByPhoneNumbers sample_sdk
       (map JString [''+1234567890'', ''12345'', ''+15550100'']) sample_world))) =
     [JString ''+1234567890'', JString ''12345'', JString ''+15550100'']"
    using T [THEN conjunct2, THEN conjunct2, THEN conjunct1]
    by (simp add: sample_world_def)
  have reqs: "sdk_requests (trace (snd (findUsersByPhoneNumbers sample_sdk
       (map JString [''+1234567890'', ''12345'', ''+15550100'']) sample_world))) =
     [''+1234567890'', ''+15550100'']"
    using T [THEN conjunct2, THEN conjunct2, THEN conjunct2, THEN conjunct2, THEN conjunct1]
    by (simp add: sample_world_def startsWith_def)
  have srv: "served (remote (snd (findUsersByPhoneNumbers sample_sdk
       (map JString [''+1234567890'', ''12345'', ''+15550100'']) sample_world))) = 2"
    using T [THEN conjunct2, THEN conjunct2, THEN conjunct2, THEN conjunct2, THEN conjunct2,
        THEN conjunct1]
    by (simp add: sample_world_def startsWith_def sample_sdk_def)
  have all: "list_all (\<lambda>p. startsWith p ''+'') [''+1234567890'', ''+15550100'']"
    by (simp add: startsWith_def)
  have cnt: "snd (remote (snd (findUsersByPhoneNumbers (counted sample_sdk)
       (map JString [''+1234567890'', ''+15550100''])
       \<lparr>trace = [], remote = (remote sample_world, 0)\<rparr>))) = 2"
    using U [THEN conjunct2, THEN conjunct2, THEN conjunct2, THEN conjunct2, THEN conjunct2,
        THEN conjunct2, THEN conjunct2, rule_format, OF all]
    by simp
  from calls reqs srv cnt show ?thesis by blast
qed

subsection \<open>When the batch lookup throws\<close>




subsection \<open>Errors of a single lookup inside the batch\<close>

text \<open>
  C4 as stated (an error of a single lookup other than "not found" propagates to the
  caller of the batch) does not hold: the sample service rejects the number \<open>+\<close> with
  \<open>auth/invalid-phone-number\<close>, the single lookup throws that error, and the batch returns
  normally with the number in \<open>notFound\<close>.
\<close>

theorem findUsersByPhoneNumbers_error_propagates_counterexample:
  "fst (findUserByPhoneNumber sample_sdk (JString ''+'') sample_world) = Inl invalid_phone_number
   \<and> code invalid_phone_number = JString ''auth/invalid-phone-number''
   \<and> fst (findUsersByPhoneNumbers sample_sdk [JString ''+''] sample_world) =
       Inr \<lparr>found = [], notFound = [JString ''+'']\<rparr>
   \<and> fst (findUsersByPhoneNumbers sample_sdk [JString ''+''] sample_world) \<noteq>
       Inl invalid_phone_number"
proof -
  have single: "fst (findUserByPhoneNumber sample_sdk (JString ''+'') sample_world) =
      Inl invalid_phone_number"
    by (simp add: find_fst startsWith_def sample_lookups invalid_phone_number_def)
  have seq: "sequential_lookups sample_sdk [JString ''+''] (remote sample_world) =
      [(JString ''+'', Inl invalid_phone_number)]"
    using single find_fst_frame [of sample_sdk "JString ''+''" sample_world]
    by (simp add: Let_def)
  have ok: "list_all stringable [JString ''+'']" by simp
  have "fst (findUsersByPhoneNumbers sample_sdk [JString ''+''] sample_world) =
       Inr \<lparr>found = [], notFound = [JString ''+'']\<rparr>"
    unfolding findUsersByPhoneNumbers_def loop_fst [OF ok] seq by simp
  with single show ?thesis by (simp add: invalid_phone_number_def)
qed

text \<open>
  C4, amended. The loop has a \<open>catch\<close> block of its own (lines 68 to 71): when the single
  lookup of a phone number raises an error, the loop logs it with \<open>console.error\<close>, pushes
  the number to \<open>notFound\<close> and goes on with the rest of the list. No error of the single
  lookup of a phone number reaches the caller of the batch.
\<close>

theorem findUsersByPhoneNumbers_catches_lookup_errors:
  "(\<forall>e. fst (findUserByPhoneNumber sdk (JString p) w) = Inl e \<longrightarrow>
      findUsersByPhoneNumbers_loop sdk (JString p # rest) found_acc notFound_acc w =
      findUsersByPhoneNumbers_loop sdk rest found_acc (notFound_acc @ [JString p])
        (console_error [JString (''Error searching for '' @ p @ '':''), message e]
           (snd (findUserByPhoneNumber sdk (JString p) w))))
   \<and> (\<forall>q e. (JString q, Inl e) \<in> set (sequential_lookups sdk (map JString ps) (remote w)) \<longrightarrow>
        (\<exists>r. fst (findUsersByPhoneNumbers sdk (map JString ps) w) = Inr r
             \<and> JString q \<in> set (notFound r))
        \<and> Console_error [JString (''Error searching for '' @ q @ '':''), message e]
            \<in> set (trace (snd (findUsersByPhoneNumbers sdk (map JString ps) w))))"
proof (intro conjI allI impI)
  fix e assume "fst (findUserByPhoneNumber sdk (JString p) w) = Inl e"
  then show "findUsersByPhoneNumbers_loop sdk (JString p # rest) found_acc notFound_acc w =
      findUsersByPhoneNumbers_loop sdk rest found_acc (notFound_acc @ [JString p])
        (console_error [JString (''Error searching for '' @ p @ '':''), message e]
           (snd (findUserByPhoneNumber sdk (JString p) w)))"
    by (cases "findUserByPhoneNumber sdk (JString p) w") simp
next
  fix q e assume a: "(JString q, Inl e) \<in> set (sequential_lookups sdk (map JString ps) (remote w))"
  note ok = list_all_stringable_strings [of ps]
  define r where "r = \<lparr>found = found_users (sequential_lookups sdk (map JString ps) (remote w)),
      notFound = map fst (filter (\<lambda>x. \<not> yields_user (snd x))
              (sequential_lookups sdk (map JString ps) (remote w)))\<rparr>"
  have r: "fst (findUsersByPhoneNumbers_loop sdk (map JString ps) [] [] w) = Inr r"
    using loop_fst [OF ok, of sdk "[]" "[]" w] by (simp add: r_def)
  have n: "notFound r = map fst (filter (\<lambda>x. \<not> yields_user (snd x))
              (sequential_lookups sdk (map JString ps) (remote w)))"
    by (simp add: r_def)
  from a have "JString q \<in> set (notFound r)" unfolding n by force
  with r show "\<exists>r. fst (findUsersByPhoneNumbers sdk (map JString ps) w) = Inr r
             \<and> JString q \<in> set (notFound r)"
    by (simp add: findUsersByPhoneNumbers_def)
  show "Console_error [JString (''Error searching for '' @ q @ '':''), message e]
            \<in> set (trace (snd (findUsersByPhoneNumbers sdk (map JString ps) w)))"
    using loop_error_logged [OF ok a, of q] by (simp add: findUsersByPhoneNumbers_def)
qed

theorem findUsersByPhoneNumbers_catches_lookup_errors_witness:
  "(\<exists>r. fst (findUsersByPhoneNumbers sample_sdk
          (map JString [''+1234567890'', ''12345'', ''+15550100'', ''+'', ''+84123456789''])
          sample_world) = Inr r
       \<and> JString ''+'' \<in> set (notFound r))
   \<and> Console_error [JString ''Error searching for +:'', message invalid_phone_number]
       \<in> set (trace (snd (findUsersByPhoneNumbers sample_sdk
          (map JString [''+1234567890'', ''12345'', ''+15550100'', ''+'', ''+84123456789''])
          sample_world)))"
proof -
  have m: "map JString [''+1234567890'', ''12345'', ''+15550100'', ''+'', ''+84123456789''] =
      [JString ''+1234567890'', JString ''12345'', JString ''+15550100'', JString ''+'',
       JString ''+84123456789'']" by simp
  have "(JString ''+'', Inl invalid_phone_number) \<in> set (sequential_lookups sample_sdk
          (map JString [''+1234567890'', ''12345'', ''+15550100'', ''+'', ''+84123456789''])
          (remote sample_world))"
    unfolding m sample_sequential_lookups by simp
  then show ?thesis
    using findUsersByPhoneNumbers_catches_lookup_errors [where sdk = sample_sdk
          and ps = "[''+1234567890'', ''12345'', ''+15550100'', ''+'', ''+84123456789'']"
          and w = sample_world]
    by fastforce
qed

subsection \<open>The details object\<close>

text \<open>
  C5 as stated (every listed field of the result, \<open>customClaims\<close> among them, is copied
  from the SDK's record) does not hold: the sample account \<open>bob\<close> has no \<open>customClaims\<close>
  (the field is \<open>undefined\<close>), and the result has the empty object \<open>{}\<close> there.
\<close>

theorem getUserDetailsByPhoneNumber_copies_customClaims_counterexample:
  "fst (sample_sdk ''+84123456789'' (remote sample_world)) = Inr bob
   \<and> customClaims bob = JUndefined
   \<and> map_sum id (map_option customClaims)
        (fst (getUserDetailsByPhoneNumber sample_sdk (JString ''+84123456789'') sample_world)) =
      Inr (Some (JObject []))"
  by (simp add: details_fst find_fst startsWith_def sample_lookups)
     (simp add: bob_def user_details_of_def js_or_def)

text \<open>
  C5, amended. \<open>getUserDetailsByPhoneNumber\<close> returns \<open>null\<close> when no user is found, and
  otherwise a plain object with the fields \<open>uid\<close>, \<open>email\<close>, \<open>phoneNumber\<close>,
  \<open>displayName\<close>, \<open>photoURL\<close>, \<open>emailVerified\<close> and \<open>disabled\<close> copied from the SDK's
  record, a \<open>metadata\<close> object with \<open>creationTime\<close>, \<open>lastSignInTime\<close> and
  \<open>lastRefreshTime\<close> copied, \<open>providerData\<close> mapped element by element to objects with
  \<open>uid\<close>, \<open>displayName\<close>, \<open>email\<close>, \<open>phoneNumber\<close>, \<open>photoURL\<close> and \<open>providerId\<close>,
  and \<open>customClaims\<close> copied when the record's value is truthy and the empty object
  otherwise. An error of the lookup is thrown again.
\<close>

theorem getUserDetailsByPhoneNumber_shapes_record:
  "(fst (findUserByPhoneNumber sdk p w) = Inr None \<longrightarrow>
      fst (getUserDetailsByPhoneNumber sdk p w) = Inr None)
   \<and> (\<forall>u. fst (findUserByPhoneNumber sdk p w) = Inr (Some u) \<longrightarrow>
        (\<exists>d. fst (getUserDetailsByPhoneNumber sdk p w) = Inr (Some d)
           \<and> uid d = uid u
           \<and> email d = email u
           \<and> phoneNumber d = phoneNumber u
           \<and> displayName d = displayName u
           \<and> photoURL d = photoURL u
           \<and> emailVerified d = emailVerified u
           \<and> disabled d = disabled u
           \<and> metadata d =
               \<lparr>creationTime = creationTime (metadata u),
                lastSignInTime = lastSignInTime (metadata u),
                lastRefreshTime = lastRefreshTime (metadata u)\<rparr>
           \<and> customClaims d = (if truthy (customClaims u) then customClaims u else JObject [])
           \<and> length (providerData d) = length (providerData u)
           \<and> (\<forall>i < length (providerData u).
                 providerData d ! i =
                   \<lparr>user_info.uid = user_info.uid (providerData u ! i),
                    displayName = user_info.displayName (providerData u ! i),
                    email = user_info.email (providerData u ! i),
                    phoneNumber = user_info.phoneNumber (providerData u ! i),
                    photoURL = user_info.photoURL (providerData u ! i),
                    providerId = providerId (providerData u ! i)\<rparr>)))
   \<and> (\<forall>e. fst (findUserByPhoneNumber sdk p w) = Inl e \<longrightarrow>
        fst (getUserDetailsByPhoneNumber sdk p w) = Inl e)"
  by (simp add: details_fst user_details_of_def js_or_def)

theorem getUserDetailsByPhoneNumber_shapes_record_witness:
  "fst (findUserByPhoneNumber sample_sdk (JString ''+1234567890'') sample_world) = Inr (Some alice)
   \<and> (\<exists>d. fst (getUserDetailsByPhoneNumber sample_sdk (JString ''+1234567890'') sample_world) =
          Inr (Some d)
        \<and> uid d = JString ''uid-alice''
        \<and> customClaims d = JObject [(''admin'', JBoolean True)]
        \<and> length (providerData d) = 1
        \<and> providerId (providerData d ! 0) = JString ''phone'')
   \<and> fst (getUserDetailsByPhoneNumber sample_sdk (JString ''+15550100'') sample_world) = Inr None
   \<and> fst (getUserDetailsByPhoneNumber sample_sdk (JString ''+'') sample_world) =
       Inl invalid_phone_number"
proof -
  have a: "fst (findUserByPhoneNumber sample_sdk (JString ''+1234567890'') sample_world) = Inr (Some alice)"
    and b: "fst (findUserByPhoneNumber sample_sdk (JString ''+15550100'') sample_world) = Inr None"
    and c: "fst (findUserByPhoneNumber sample_sdk (JString ''+'') sample_world) = Inl invalid_phone_number"
    by (simp_all add: find_fst startsWith_def sample_lookups user_not_found_def
        invalid_phone_number_def)
  note T = getUserDetailsByPhoneNumber_shapes_record [where sdk = sample_sdk and w = sample_world]
  from a T [where p = "JString ''+1234567890''"]
  obtain d where d: "fst (getUserDetailsByPhoneNumber sample_sdk (JString ''+1234567890'') sample_world) =
          Inr (Some d)" "uid d = uid alice"
      "customClaims d = (if truthy (customClaims alice) then customClaims alice else JObject [])"
      "length (providerData d) = length (providerData alice)"
      "\<forall>i < length (providerData alice). providerData d ! i =
                   \<lparr>user_info.uid = user_info.uid (providerData alice ! i),
                    displayName = user_info.displayName (providerData alice ! i),
                    email = user_info.email (providerData alice ! i),
                    phoneNumber = user_info.phoneNumber (providerData alice ! i),
                    photoURL = user_info.photoURL (providerData alice ! i),
                    providerId = providerId (providerData alice ! i)\<rparr>"
    by blast
  have "\<exists>d. fst (getUserDetailsByPhoneNumber sample_sdk (JString ''+1234567890'') sample_world) =
          Inr (Some d)
        \<and> uid d = JString ''uid-alice''
        \<and> customClaims d = JObject [(''admin'', JBoolean True)]
        \<and> length (providerData d) = 1
        \<and> providerId (providerData d ! 0) = JString ''phone''"
    using d by (simp add: alice_def)
  moreover have "fst (getUserDetailsByPhoneNumber sample_sdk (JString ''+15550100'') sample_world) = Inr None"
    using b T [where p = "JString ''+15550100''"] by blast
  moreover have "fst (getUserDetailsByPhoneNumber sample_sdk (JString ''+'') sample_world) =
       Inl invalid_phone_number"
    using c T [where p = "JString ''+''"] by blast
  ultimately show ?thesis using a by blast
qed

subsection \<open>Missing custom claims\<close>

text \<open>
  C10. When the record the SDK returns has no \<open>customClaims\<close> (the field is absent, which
  reads as \<open>undefined\<close>, or is \<open>undefined\<close> or \<open>null\<close>), the \<open>customClaims\<close> field of the
  result of \<open>getUserDetailsByPhoneNumber\<close> is the empty object \<open>{}\<close>.
\<close>

theorem getUserDetailsByPhoneNumber_default_customClaims:
  assumes "fst (sdk (CHR ''+'' # t) (remote w)) = Inr u"
    and "customClaims u = JUndefined \<or> customClaims u = JNull"
  shows "\<exists>d. fst (getUserDetailsByPhoneNumber sdk (JString (CHR ''+'' # t)) w) = Inr (Some d)
           \<and> customClaims d = JObject []"
  using assms by (auto simp: details_fst find_fst startsWith_def user_details_of_def js_or_def)

theorem getUserDetailsByPhoneNumber_default_customClaims_witness:
  "customClaims bob = JUndefined
   \<and> (\<exists>d. fst (getUserDetailsByPhoneNumber sample_sdk (JString ''+84123456789'') sample_world) =
            Inr (Some d)
          \<and> customClaims d = JObject [])"
proof -
  have c: "customClaims bob = JUndefined" by (simp add: bob_def)
  then have "customClaims bob = JUndefined \<or> customClaims bob = JNull" by simp
  with getUserDetailsByPhoneNumber_default_customClaims
    [where sdk = sample_sdk and t = "''84123456789''" and w = sample_world and u = bob]
    sample_lookups(2) c
  show ?thesis by simp
qed

subsection \<open>The command line\<close>

text \<open>
  C7. The command-line block reads one positional argument, \<open>process.argv[2]\<close>, and
  ignores any further one. Without an argument (and with an empty one) it prints the usage
  text and exits with code 1, without a lookup. Otherwise it looks the argument up once:
  when no user is found or the lookup raises an error it exits with code 1; when a user is
  found it prints the success line last and runs to completion.
\<close>

theorem cli_main_exit_codes:
  "(length argv \<le> 2 \<longrightarrow>
      cli_main sdk argv w = (Process_exit 1, console_log [JString usage_text] w))
   \<and> (2 < length argv \<and> argv ! 2 = [] \<longrightarrow>
        cli_main sdk argv w = (Process_exit 1, console_log [JString usage_text] w))
   \<and> (2 < length argv \<and> argv ! 2 \<noteq> [] \<longrightarrow>
        find_calls (trace (snd (cli_main sdk argv w))) = find_calls (trace w) @ [JString (argv ! 2)]
        \<and> (fst (findUserByPhoneNumber sdk (JString (argv ! 2)) w) = Inr None \<longrightarrow>
             fst (cli_main sdk argv w) = Process_exit 1)
        \<and> (\<forall>e. fst (findUserByPhoneNumber sdk (JString (argv ! 2)) w) = Inl e \<longrightarrow>
             fst (cli_main sdk argv w) = Process_exit 1)
        \<and> (\<forall>u. fst (findUserByPhoneNumber sdk (JString (argv ! 2)) w) = Inr (Some u) \<longrightarrow>
             fst (cli_main sdk argv w) = Completed
             \<and> trace (snd (cli_main sdk argv w)) =
                 trace (snd (findUserByPhoneNumber sdk (JString (argv ! 2)) w)) @
                 [Console_log [JString (''\<newline>'' @ check_mark @ '' User found successfully!'')]]))
   \<and> (\<forall>argv'. 2 < length argv \<and> 2 < length argv' \<and> argv' ! 2 = argv ! 2 \<longrightarrow>
        cli_main sdk argv' w = cli_main sdk argv w)"
proof (intro conjI allI impI)
  assume "length argv \<le> 2"
  then show "cli_main sdk argv w = (Process_exit 1, console_log [JString usage_text] w)"
    by (simp add: cli_main_usage)
next
  assume "2 < length argv \<and> argv ! 2 = []"
  then show "cli_main sdk argv w = (Process_exit 1, console_log [JString usage_text] w)"
    by (simp add: cli_main_usage)
next
  assume a: "2 < length argv \<and> argv ! 2 \<noteq> []"
  obtain r w' where X: "findUserByPhoneNumber sdk (JString (argv ! 2)) w = (r, w')"
    by (cases "findUserByPhoneNumber sdk (JString (argv ! 2)) w")
  have c: "find_calls (trace w') = find_calls (trace w) @ [JString (argv ! 2)]"
    using find_calls_find [of sdk "JString (argv ! 2)" w] X by simp
  note L = cli_main_lookup [of argv sdk w]
  show "find_calls (trace (snd (cli_main sdk argv w))) = find_calls (trace w) @ [JString (argv ! 2)]"
    using a L X c by (simp split: sum.splits option.splits)
  show "fst (cli_main sdk argv w) = Process_exit 1"
    if "fst (findUserByPhoneNumber sdk (JString (argv ! 2)) w) = Inr None"
    using a L X that by simp
  show "fst (cli_main sdk argv w) = Process_exit 1"
    if "fst (findUserByPhoneNumber sdk (JString (argv ! 2)) w) = Inl e" for e
    using a L X that by simp
  show "fst (cli_main sdk argv w) = Completed"
    if "fst (findUserByPhoneNumber sdk (JString (argv ! 2)) w) = Inr (Some u)" for u
    using a L X that by simp
  show "trace (snd (cli_main sdk argv w)) =
                 trace (snd (findUserByPhoneNumber sdk (JString (argv ! 2)) w)) @
                 [Console_log [JString (''\<newline>'' @ check_mark @ '' User found successfully!'')]]"
    if "fst (findUserByPhoneNumber sdk (JString (argv ! 2)) w) = Inr (Some u)" for u
    using a L X that by simp
next
  fix argv' assume "2 < length argv \<and> 2 < length argv' \<and> argv' ! 2 = argv ! 2"
  then show "cli_main sdk argv' w = cli_main sdk argv w"
    by (simp add: cli_main_def Let_def argv_at_2)
qed

theorem cli_main_exit_codes_witness:
  "fst (cli_main sample_sdk [''node'', ''search.js''] sample_world) = Process_exit 1
   \<and> fst (cli_main sample_sdk [''node'', ''search.js'', ''+15550100''] sample_world) = Process_exit 1
   \<and> fst (cli_main sample_sdk [''node'', ''search.js'', ''12345''] sample_world) = Process_exit 1
   \<and> fst (cli_main sample_sdk [''node'', ''search.js'', ''+1234567890''] sample_world) = Completed
   \<and> cli_main sample_sdk [''node'', ''search.js'', ''+1234567890'', ''+84123456789''] sample_world =
       cli_main sample_sdk [''node'', ''search.js'', ''+1234567890''] sample_world"
proof -
  have a: "fst (findUserByPhoneNumber sample_sdk (JString ''+1234567890'') sample_world) = Inr (Some alice)"
    and b: "fst (findUserByPhoneNumber sample_sdk (JString ''+15550100'') sample_world) = Inr None"
    and c: "fst (findUserByPhoneNumber sample_sdk (JString ''12345'') sample_world) =
       Inl (new_Error ''Phone number must be in E.164 format (e.g., +1234567890)'')"
    by (simp_all add: find_fst startsWith_def sample_lookups user_not_found_def)
  note T = cli_main_exit_codes [where sdk = sample_sdk and w = sample_world]
  note none = T [where argv = "[''node'', ''search.js'']", THEN conjunct1]
  note miss = T [where argv = "[''node'', ''search.js'', ''+15550100'']", THEN conjunct2, THEN conjunct2, THEN conjunct1]
  note bad = T [where argv = "[''node'', ''search.js'', ''12345'']", THEN conjunct2, THEN conjunct2, THEN conjunct1]
  note hit = T [where argv = "[''node'', ''search.js'', ''+1234567890'']", THEN conjunct2, THEN conjunct2, THEN conjunct1]
  note more = T [where argv = "[''node'', ''search.js'', ''+1234567890'']", THEN conjunct2, THEN conjunct2,
      THEN conjunct2, THEN spec, of "[''node'', ''search.js'', ''+1234567890'', ''+84123456789'']"]
  have "fst (cli_main sample_sdk [''node'', ''search.js''] sample_world) = Process_exit 1"
    using none by simp
  moreover have "fst (cli_main sample_sdk [''node'', ''search.js'', ''+15550100''] sample_world) = Process_exit 1"
    using miss b by simp
  moreover have "fst (cli_main sample_sdk [''node'', ''search.js'', ''12345''] sample_world) = Process_exit 1"
    using bad c by simp
  moreover have "fst (cli_main sample_sdk [''node'', ''search.js'', ''+1234567890''] sample_world) = Completed"
    using hit a by simp
  moreover have "cli_main sample_sdk [''node'', ''search.js'', ''+1234567890'', ''+84123456789''] sample_world =
       cli_main sample_sdk [''node'', ''search.js'', ''+1234567890''] sample_world"
    using more by simp
  ultimately show ?thesis by blast
qed

subsection \<open>The lookups are read-only\<close>

text \<open>
  C9. The module keeps no state of its own, and the only operation of the SDK it calls is
  the lookup \<open>getUserByPhoneNumber\<close>. So whatever part of the remote service's state that
  lookup leaves unchanged (its user store; \<open>view\<close> selects it) is left unchanged by
  \<open>findUserByPhoneNumber\<close>, \<open>findUsersByPhoneNumbers\<close>, \<open>getUserDetailsByPhoneNumber\<close> and the
  command line.
\<close>

theorem lookups_leave_user_store_unchanged:
  assumes "\<forall>s r. view (snd (getUserByPhoneNumber s r)) = view r"
  shows "view (remote (snd (findUserByPhoneNumber getUserByPhoneNumber p w))) = view (remote w)
     \<and> view (remote (snd (findUsersByPhoneNumbers getUserByPhoneNumber ps w))) = view (remote w)
     \<and> view (remote (snd (getUserDetailsByPhoneNumber getUserByPhoneNumber p w))) = view (remote w)
     \<and> view (remote (snd (cli_main getUserByPhoneNumber argv w))) = view (remote w)"
proof (intro conjI)
  show f: "view (remote (snd (findUserByPhoneNumber getUserByPhoneNumber p w))) = view (remote w)" for p
    by (rule find_view [OF assms])
  show "view (remote (snd (findUsersByPhoneNumbers getUserByPhoneNumber ps w))) = view (remote w)"
    by (simp add: findUsersByPhoneNumbers_def loop_view [OF assms])
  show "view (remote (snd (getUserDetailsByPhoneNumber getUserByPhoneNumber p w))) = view (remote w)"
    by (simp add: details_remote f)
  show "view (remote (snd (cli_main getUserByPhoneNumber argv w))) = view (remote w)"
  proof (cases "2 < length argv \<and> argv ! 2 \<noteq> []")
    case False
    then show ?thesis by (simp add: cli_main_usage)
  next
    case True
    obtain r w' where X: "findUserByPhoneNumber getUserByPhoneNumber (JString (argv ! 2)) w = (r, w')"
      by (cases "findUserByPhoneNumber getUserByPhoneNumber (JString (argv ! 2)) w")
    have "view (remote w') = view (remote w)" using f [of "JString (argv ! 2)"] X by simp
    then show ?thesis using True X
      by (simp add: cli_main_lookup split: sum.splits option.splits)
  qed
qed

theorem lookups_leave_user_store_unchanged_witness:
  "accounts (remote (snd (findUserByPhoneNumber sample_sdk (JString ''+1234567890'') sample_world))) =
     accounts (remote sample_world)
   \<and> accounts (remote (snd (findUsersByPhoneNumbers sample_sdk
        [JString ''+1234567890'', JString ''12345'', JSymbol ''s'', JString ''+15550100'']
        sample_world))) = accounts (remote sample_world)
   \<and> accounts (remote (snd (getUserDetailsByPhoneNumber sample_sdk (JString ''+1234567890'')
        sample_world))) = accounts (remote sample_world)
   \<and> served (remote (snd (findUserByPhoneNumber sample_sdk (JString ''+1234567890'') sample_world))) = 1"
proof -
  have ro: "\<forall>s r. accounts (snd (sample_sdk s r)) = accounts r"
    by (simp add: sample_sdk_def)
  have "served (remote (snd (findUserByPhoneNumber sample_sdk (JString ''+1234567890'') sample_world))) = 1"
    by (simp add: find_remote startsWith_def sample_sdk_def sample_world_def)
  with lookups_leave_user_store_unchanged [where view = accounts
      and getUserByPhoneNumber = sample_sdk and w = sample_world
      and p = "JString ''+1234567890''"
      and ps = "[JString ''+1234567890'', JString ''12345'', JSymbol ''s'', JString ''+15550100'']"
      and argv = "[]", OF ro]
  show ?thesis by blast
qed

end
